theory Spec2Isabelle
  imports
    Main
    "HOL-Library.Char_ord"
    "HOL-Library.List_Lexorder"
    "HOL-Library.Product_Lexorder"
begin

section \<open>Event inscriptions: the booking transaction of \<open>streamlit_app.py\<close>\<close>

text \<open>
  The program is one Streamlit script over a Postgres database with two tables,
  \<open>public.sessions\<close> and \<open>public.bookings\<close>. Every database operation opens a
  connection of its own (\<open>connect()\<close>), runs its statements and leaves the
  \<open>with\<close> block. The model passes the database explicitly: an operation takes the
  committed database and returns its result together with the connection as it stands
  at the end, which holds the database after the call and the calls made on the
  connection, in order.

  The columns the script reads are taken to hold values (no \<open>NULL\<close>). What the
  database server or the network may raise (a lost connection, a constraint of the
  tables that refuses a row) is not part of the model: the declarations of the tables
  are not in the source.
\<close>

subsection \<open>Configuration\<close>

text \<open>
  \<open>st.secrets\<close> is a mapping of sections to mappings, \<open>os.environ\<close> a mapping of
  names to strings.
\<close>

record config =
  secrets :: "string \<rightharpoonup> (string \<rightharpoonup> string)"
  environ :: "string \<rightharpoonup> string"

text \<open>\<open>os.environ.get(key, default)\<close>.\<close>

definition environ_get :: "config \<Rightarrow> string \<Rightarrow> string \<Rightarrow> string" where
  "environ_get cfg key dflt = (case environ cfg key of Some v \<Rightarrow> v | None \<Rightarrow> dflt)"

text \<open>
  \<open>"sec" in st.secrets and "key" in st.secrets["sec"]\<close>, then
  \<open>st.secrets["sec"]["key"]\<close>: the value when both lookups succeed.
\<close>

definition secret_get :: "config \<Rightarrow> string \<Rightarrow> string \<Rightarrow> string option" where
  "secret_get cfg sec key = (case secrets cfg sec of Some m \<Rightarrow> m key | None \<Rightarrow> None)"

definition get_db_url :: "config \<Rightarrow> string" where
  "get_db_url cfg =
     (case secret_get cfg ''db'' ''url'' of
        Some url \<Rightarrow> url
      | None \<Rightarrow> environ_get cfg ''DATABASE_URL'' '''')"

definition get_admin_password :: "config \<Rightarrow> string" where
  "get_admin_password cfg =
     (case secret_get cfg ''admin'' ''password'' of
        Some pw \<Rightarrow> pw
      | None \<Rightarrow> environ_get cfg ''ADMIN_PASSWORD'' '''')"

subsection \<open>Messages\<close>

text \<open>
  The texts the script returns or shows, one constructor each (the source's literals
  have accented letters and inverted exclamation marks, left out of the names):
  \<^item> \<open>Falta_configurar_conexion\<close>: "Falta configurar la conexion a la base de datos
    (DATABASE_URL / secrets)." (\<open>connect\<close>);
  \<^item> \<open>Sesion_no_encontrada\<close>: "Sesion no encontrada.";
  \<^item> \<open>Sesion_se_acaba_de_llenar\<close>: "Lo sentimos: esa sesion se acaba de llenar.";
  \<^item> \<open>Reserva_confirmada\<close>: "Reserva confirmada!";
  \<^item> \<open>Sesion_ya_esta_llena\<close>: "Esa sesion ya esta llena. Elige otra franja.";
  \<^item> \<open>Falta_nombre\<close>: "Falta Nombre y Apellido.";
  \<^item> \<open>Movil_invalido\<close>: "Movil invalido. Revisa el formato.";
  \<^item> \<open>Email_invalido\<close>: "Email invalido.";
  \<^item> \<open>Necesitas_aceptar\<close>: "Necesitas aceptar el uso de datos para inscribirte.";
  \<^item> \<open>Acceso_concedido\<close>: "Acceso concedido.";
  \<^item> \<open>Contrasena_incorrecta\<close>: "Contrasena incorrecta.".
\<close>

datatype message =
    Falta_configurar_conexion
  | Sesion_no_encontrada
  | Sesion_se_acaba_de_llenar
  | Reserva_confirmada
  | Sesion_ya_esta_llena
  | Falta_nombre
  | Movil_invalido
  | Email_invalido
  | Necesitas_aceptar
  | Acceso_concedido
  | Contrasena_incorrecta

text \<open>
  \<open>st.error(m); st.stop()\<close> ends the script run: \<open>Stopped m\<close>. A function that
  returns gives \<open>Returned\<close>.
\<close>

datatype 'a outcome = Stopped message | Returned 'a

subsection \<open>Tables\<close>

type_synonym date = "nat \<times> nat \<times> nat"
type_synonym time_of_day = nat
type_synonym timestamp = nat

text \<open>A row of \<open>public.sessions\<close>, with the columns the script reads.\<close>

record session =
  s_id :: int
  s_activity :: string
  s_event_date :: date
  s_start_time :: time_of_day
  s_end_time :: time_of_day
  s_capacity :: int

text \<open>
  A row of \<open>public.bookings\<close>. The type \<open>'s\<close> is that of its text columns: the
  database operations store and return the texts they are given and never look inside
  them.
\<close>

record 's booking =
  b_id :: int
  b_session_id :: int
  b_full_name :: 's
  b_phone :: 's
  b_email :: 's
  b_created_at :: timestamp

text \<open>
  Modelled from the spec: the declaration of the two tables is not in the source. The
  insert statement names four columns and returns \<open>id\<close>, so the table fills \<open>id\<close>
  and \<open>created_at\<close> itself: the identifier comes from a sequence that every insert
  advances (\<open>bookings_id_seq\<close>), the creation time from the server's clock (\<open>now\<close>).
\<close>

record 's database =
  sessions :: "session list"
  bookings :: "'s booking list"
  bookings_id_seq :: int
  now :: timestamp

subsection \<open>Connections\<close>

datatype 's statement =
    Select_sessions_with_booked date
  | Select_session_for_update int
  | Count_bookings int
  | Insert_booking int 's 's 's

text \<open>
  The calls a connection receives: a statement run on one of its cursors, an explicit
  \<open>conn.rollback()\<close> or \<open>conn.commit()\<close>, and the end of the \<open>with\<close> block.
\<close>

datatype 's conn_call = Execute "'s statement" | Rollback | Commit | Exit_with

text \<open>
  A connection holds the committed database, the rows its open transaction has written
  and not yet committed, and the calls made on it so far.
\<close>

record 's connection =
  committed :: "'s database"
  pending :: "'s booking list"
  calls :: "'s conn_call list"

definition connect :: "config \<Rightarrow> 's database \<Rightarrow> 's connection outcome" where
  "connect cfg db =
     (let db_url = get_db_url cfg
      in if db_url = [] then Stopped Falta_configurar_conexion
         else Returned \<lparr>committed = db, pending = [], calls = []\<rparr>)"

definition execute :: "'s connection \<Rightarrow> 's statement \<Rightarrow> 's connection" where
  "execute conn stmt = conn\<lparr>calls := calls conn @ [Execute stmt]\<rparr>"

text \<open>\<open>conn.rollback()\<close>: the uncommitted rows are dropped.\<close>

definition rollback :: "'s connection \<Rightarrow> 's connection" where
  "rollback conn = conn\<lparr>pending := [], calls := calls conn @ [Rollback]\<rparr>"

definition flush :: "'s connection \<Rightarrow> 's database" where
  "flush conn = (committed conn)\<lparr>bookings := bookings (committed conn) @ pending conn\<rparr>"

text \<open>\<open>conn.commit()\<close>: the uncommitted rows become part of the database.\<close>

definition commit :: "'s connection \<Rightarrow> 's connection" where
  "commit conn = conn\<lparr>committed := flush conn, pending := [], calls := calls conn @ [Commit]\<rparr>"

text \<open>
  Leaving \<open>with connect() as conn:\<close> without an exception: psycopg2 commits the
  transaction that is open at that moment (and leaves the connection open). A
  \<open>return\<close> inside the block leaves it this way too.
\<close>

definition exit_with :: "'s connection \<Rightarrow> 's connection" where
  "exit_with conn = conn\<lparr>committed := flush conn, pending := [], calls := calls conn @ [Exit_with]\<rparr>"

text \<open>The rows a statement of the connection sees: the committed ones and its own.\<close>

definition visible_bookings :: "'s connection \<Rightarrow> 's booking list" where
  "visible_bookings conn = bookings (committed conn) @ pending conn"

subsection \<open>The statements of \<open>create_booking_atomic\<close>\<close>

text \<open>
  \<open>select id, capacity from public.sessions where id=%s for update\<close> and
  \<open>cur.fetchone()\<close>: the first matching row as the pair \<open>(id, capacity)\<close>, or
  \<open>None\<close>.
\<close>

definition select_session_for_update :: "'s connection \<Rightarrow> int \<Rightarrow> (int \<times> int) option \<times> 's connection" where
  "select_session_for_update conn session_id =
     (map_option (\<lambda>s. (s_id s, s_capacity s))
        (find (\<lambda>s. s_id s = session_id) (sessions (committed conn))),
      execute conn (Select_session_for_update session_id))"

text \<open>\<open>select count(*)::int as booked from public.bookings where session_id=%s\<close>.\<close>

definition count_bookings :: "'s connection \<Rightarrow> int \<Rightarrow> int \<times> 's connection" where
  "count_bookings conn session_id =
     (int (length (filter (\<lambda>b. b_session_id b = session_id) (visible_bookings conn))),
      execute conn (Count_bookings session_id))"

text \<open>
  \<open>insert into public.bookings (session_id, full_name, phone, email) values (...)
  returning id\<close>: the new row is written in the open transaction; the sequence is
  advanced whether or not the transaction commits.
\<close>

definition insert_booking ::
  "'s connection \<Rightarrow> int \<Rightarrow> 's \<Rightarrow> 's \<Rightarrow> 's \<Rightarrow> int \<times> 's connection" where
  "insert_booking conn session_id full_name phone email =
     (let db = committed conn;
          new_id = bookings_id_seq db;
          row = \<lparr>b_id = new_id, b_session_id = session_id, b_full_name = full_name,
                 b_phone = phone, b_email = email, b_created_at = now db\<rparr>
      in (new_id,
          conn\<lparr>committed := db\<lparr>bookings_id_seq := new_id + 1\<rparr>,
               pending := pending conn @ [row],
               calls := calls conn @ [Execute (Insert_booking session_id full_name phone email)]\<rparr>))"

subsection \<open>\<open>create_booking_atomic\<close> (lines 66 to 100)\<close>

text \<open>
  The function returns a pair of a flag and a message, here together with the
  connection at the end of the \<open>with\<close> block. The identifier the insert returns is
  bound to \<open>_\<close> and not used.
\<close>

definition create_booking_atomic ::
  "config \<Rightarrow> 's database \<Rightarrow> int \<Rightarrow> 's \<Rightarrow> 's \<Rightarrow> 's
    \<Rightarrow> ((bool \<times> message) \<times> 's connection) outcome" where
  "create_booking_atomic cfg db session_id full_name phone email =
     (case connect cfg db of
        Stopped m \<Rightarrow> Stopped m
      | Returned conn0 \<Rightarrow>
          (let (srow, conn1) = select_session_for_update conn0 session_id
           in case srow of
                None \<Rightarrow> Returned ((False, Sesion_no_encontrada), exit_with conn1)
              | Some (sid, cap) \<Rightarrow>
                  (let (booked, conn2) = count_bookings conn1 session_id;
                       capacity = cap;
                       remaining = capacity - booked
                   in if remaining \<le> 0
                      then Returned ((False, Sesion_se_acaba_de_llenar), exit_with (rollback conn2))
                      else (let (new_id, conn3) = insert_booking conn2 session_id full_name phone email;
                                conn4 = commit conn3
                            in Returned ((True, Reserva_confirmada), exit_with conn4)))))"

text \<open>The database a call leaves behind: unchanged when the script stopped.\<close>

definition database_after :: "'s database \<Rightarrow> ('a \<times> 's connection) outcome \<Rightarrow> 's database" where
  "database_after db out = (case out of Stopped m \<Rightarrow> db | Returned (r, conn) \<Rightarrow> committed conn)"

text \<open>What the reads of a call see in the committed database.\<close>

definition find_session :: "'s database \<Rightarrow> int \<Rightarrow> session option" where
  "find_session db session_id = find (\<lambda>s. s_id s = session_id) (sessions db)"

definition booked_count :: "'s database \<Rightarrow> int \<Rightarrow> int" where
  "booked_count db session_id =
     int (length (filter (\<lambda>b. b_session_id b = session_id) (bookings db)))"

subsection \<open>\<open>fetch_sessions\<close> (lines 44 to 64)\<close>

text \<open>A row of the query's result: the session's columns and \<open>count(b.id) as booked\<close>.\<close>

record counted_session =
  c_id :: int
  c_activity :: string
  c_start_time :: time_of_day
  c_end_time :: time_of_day
  c_capacity :: int
  c_booked :: int

text \<open>The same row after the loop of lines 62 and 63 has added the key \<open>remaining\<close>.\<close>

record listed_session =
  r_id :: int
  r_activity :: string
  r_start_time :: time_of_day
  r_end_time :: time_of_day
  r_capacity :: int
  r_booked :: int
  r_remaining :: int

text \<open>
  The query: the sessions of the date, each left-joined with its bookings and grouped
  by the session's \<open>id\<close> (the table's key, so a group is one session),
  \<open>count(b.id)\<close> counting the bookings joined to it, in the order of
  \<open>activity, start_time\<close> (texts compared by code point).
\<close>

definition select_sessions_with_booked :: "'s connection \<Rightarrow> date \<Rightarrow> counted_session list \<times> 's connection" where
  "select_sessions_with_booked conn event_date =
     (map (\<lambda>s. \<lparr>c_id = s_id s, c_activity = s_activity s, c_start_time = s_start_time s,
                 c_end_time = s_end_time s, c_capacity = s_capacity s,
                 c_booked = int (length (filter (\<lambda>b. b_session_id b = s_id s) (visible_bookings conn)))\<rparr>)
        (sort_key (\<lambda>s. (s_activity s, s_start_time s))
           (filter (\<lambda>s. s_event_date s = event_date) (sessions (committed conn)))),
      execute conn (Select_sessions_with_booked event_date))"

text \<open>\<open>r["remaining"] = int(r["capacity"]) - int(r["booked"])\<close>.\<close>

definition add_remaining :: "counted_session \<Rightarrow> listed_session" where
  "add_remaining r =
     \<lparr>r_id = c_id r, r_activity = c_activity r, r_start_time = c_start_time r,
      r_end_time = c_end_time r, r_capacity = c_capacity r, r_booked = c_booked r,
      r_remaining = c_capacity r - c_booked r\<rparr>"

definition fetch_sessions :: "config \<Rightarrow> 's database \<Rightarrow> date \<Rightarrow> (listed_session list \<times> 's connection) outcome" where
  "fetch_sessions cfg db event_date =
     (case connect cfg db of
        Stopped m \<Rightarrow> Stopped m
      | Returned conn0 \<Rightarrow>
          (let (rows, conn1) = select_sessions_with_booked conn0 event_date;
               conn2 = exit_with conn1
           in Returned (map add_remaining rows, conn2)))"

text \<open>The value a call returned, if it returned.\<close>

definition returned :: "('a \<times> 's connection) outcome \<Rightarrow> 'a option" where
  "returned out = (case out of Stopped m \<Rightarrow> None | Returned (r, conn) \<Rightarrow> Some r)"

text \<open>The calls a call made on its connection, in order.\<close>

definition calls_made :: "('a \<times> 's connection) outcome \<Rightarrow> 's conn_call list" where
  "calls_made out = (case out of Stopped m \<Rightarrow> [] | Returned (r, conn) \<Rightarrow> calls conn)"

subsection \<open>Strings\<close>

text \<open>
  What is typed into the form is a Python string: a sequence of Unicode code points.
  \<open>str.strip\<close> and \<open>str.lower\<close> work from the Unicode tables of the interpreter,
  which are not in the source, so the tables are a parameter: the code points that are
  whitespace (\<open>str.isspace\<close>), those that are uppercase (\<open>str.isupper\<close>), and the
  lowercase form of a string (\<open>str.lower\<close>).
\<close>

type_synonym codepoint = nat
type_synonym str = "codepoint list"

record unicode =
  isspace :: "codepoint \<Rightarrow> bool"
  isupper :: "codepoint \<Rightarrow> bool"
  lower :: "str \<Rightarrow> str"

text \<open>\<open>s.strip()\<close>: the whitespace at both ends is removed.\<close>

definition strip :: "unicode \<Rightarrow> str \<Rightarrow> str" where
  "strip u s = rev (dropWhile (isspace u) (rev (dropWhile (isspace u) s)))"

text \<open>A literal of ASCII characters as a string of code points.\<close>

definition ascii :: "string \<Rightarrow> str" where
  "ascii s = map of_char s"

text \<open>
  \<open>re.match(PHONE_REGEX, s)\<close> with \<open>PHONE_REGEX = r"^[0-9+() \-]{7,20}$"\<close>: seven to
  twenty characters of the class, up to the end of the string or up to a line feed
  that ends it.
\<close>

definition phone_class :: "codepoint \<Rightarrow> bool" where
  "phone_class c = (c \<in> set (ascii ''0123456789+() -''))"

definition phone_body :: "str \<Rightarrow> bool" where
  "phone_body s = (7 \<le> length s \<and> length s \<le> 20 \<and> list_all phone_class s)"

definition phone_regex_match :: "str \<Rightarrow> bool" where
  "phone_regex_match s =
     (phone_body s \<or> (s \<noteq> [] \<and> last s = 10 \<and> phone_body (butlast s)))"

subsection \<open>The submit handler of the booking form (lines 161 to 194)\<close>

text \<open>
  \<open>selected_session\<close> is a row of the listing fetched when the page was drawn. Each
  failed check shows its error and stops the run; otherwise the handler calls
  \<open>create_booking_atomic\<close>.
\<close>

definition submit_booking ::
  "unicode \<Rightarrow> config \<Rightarrow> str database \<Rightarrow> listed_session \<Rightarrow> str \<Rightarrow> str \<Rightarrow> str \<Rightarrow> bool
    \<Rightarrow> ((bool \<times> message) \<times> str connection) outcome" where
  "submit_booking u cfg db selected_session full_name phone email consent =
     (if r_remaining selected_session \<le> 0 then Stopped Sesion_ya_esta_llena
      else if strip u full_name = [] then Stopped Falta_nombre
      else if \<not> phone_regex_match (strip u phone) then Stopped Movil_invalido
      else if of_char (CHR ''@'') \<notin> set email \<or> of_char (CHR ''.'') \<notin> set email
        then Stopped Email_invalido
      else if \<not> consent then Stopped Necesitas_aceptar
      else create_booking_atomic cfg db (r_id selected_session)
             (strip u full_name) (strip u phone) (lower u (strip u email)))"

subsection \<open>The admin panel (lines 199 to 224)\<close>

text \<open>
  What the expander does with the password typed into it: it shows the bookings after
  "Acceso concedido.", shows the error "Contrasena incorrecta.", or shows neither.
\<close>

datatype admin_panel = Access_granted | Error_shown message | Nothing_shown

definition admin_expander :: "config \<Rightarrow> string \<Rightarrow> admin_panel" where
  "admin_expander cfg admin_pw =
     (if admin_pw \<noteq> [] \<and> admin_pw = get_admin_password cfg then Access_granted
      else if admin_pw \<noteq> [] then Error_shown Contrasena_incorrecta
      else Nothing_shown)"

subsection \<open>Sequences of booking attempts and the predicates of the properties\<close>

text \<open>
  The row lock taken by \<open>select ... for update\<close> lets one transaction at a time work
  on a session, so a run of booking attempts is a sequence of calls, each on the
  database the one before left.
\<close>

type_synonym 's attempt = "int \<times> 's \<times> 's \<times> 's"

fun booking_attempts :: "config \<Rightarrow> 's database \<Rightarrow> 's attempt list \<Rightarrow> 's database" where
  "booking_attempts cfg db [] = db"
| "booking_attempts cfg db ((session_id, full_name, phone, email) # rest) =
     booking_attempts cfg
       (database_after db (create_booking_atomic cfg db session_id full_name phone email)) rest"

text \<open>The sessions of a date in the order of the listing.\<close>

definition sessions_on :: "'s database \<Rightarrow> date \<Rightarrow> session list" where
  "sessions_on db event_date =
     sort_key (\<lambda>s. (s_activity s, s_start_time s))
       (filter (\<lambda>s. s_event_date s = event_date) (sessions db))"

text \<open>\<open>id\<close> is the key of \<open>public.sessions\<close>.\<close>

definition session_ids_unique :: "'s database \<Rightarrow> bool" where
  "session_ids_unique db = distinct (map s_id (sessions db))"

text \<open>No session has more bookings than its capacity.\<close>

definition within_capacity :: "'s database \<Rightarrow> bool" where
  "within_capacity db = (\<forall>s \<in> set (sessions db). booked_count db (s_id s) \<le> s_capacity s)"

text \<open>The rows a database has beyond those of an earlier one.\<close>

definition new_bookings :: "'s database \<Rightarrow> 's database \<Rightarrow> 's booking list" where
  "new_bookings db db' = drop (length (bookings db)) (bookings db')"

text \<open>A string with no whitespace at either end.\<close>

definition trimmed :: "unicode \<Rightarrow> str \<Rightarrow> bool" where
  "trimmed u s = (s = [] \<or> (\<not> isspace u (hd s) \<and> \<not> isspace u (last s)))"

text \<open>Lowercasing puts no whitespace at the ends of a string that has none there.\<close>

definition lower_keeps_ends :: "unicode \<Rightarrow> bool" where
  "lower_keeps_ends u = (\<forall>s. trimmed u s \<longrightarrow> trimmed u (lower u s))"

subsection \<open>A worked example\<close>

text \<open>
  Two sessions on one date, the first with a single place, and three booking attempts:
  two for the first session and one for a session that does not exist.
\<close>

definition example_config :: config where
  "example_config =
     \<lparr>secrets = Map.empty, environ = [''DATABASE_URL'' \<mapsto> ''postgresql://db/evento'']\<rparr>"

definition example_database :: "string database" where
  "example_database =
     \<lparr>sessions =
        [\<lparr>s_id = 1, s_activity = ''Yoga'', s_event_date = (2025, 6, 14),
          s_start_time = 600, s_end_time = 660, s_capacity = 1\<rparr>,
         \<lparr>s_id = 2, s_activity = ''Taller'', s_event_date = (2025, 6, 14),
          s_start_time = 660, s_end_time = 720, s_capacity = 2\<rparr>],
      bookings = [], bookings_id_seq = 1, now = 0\<rparr>"

definition example_attempts :: "string attempt list" where
  "example_attempts =
     [(1, ''Ana Ruiz'', ''600123456'', ''ana@example.org''),
      (1, ''Luis Gil'', ''600654321'', ''luis@example.org''),
      (9999, ''Eva Sanz'', ''600111222'', ''eva@example.org'')]"

definition example_booking :: "string booking" where
  "example_booking =
     \<lparr>b_id = 1, b_session_id = 1, b_full_name = ''Ana Ruiz'', b_phone = ''600123456'',
      b_email = ''ana@example.org'', b_created_at = 0\<rparr>"

text \<open>The example database after the first of the example attempts.\<close>

definition example_database_full :: "string database" where
  "example_database_full = example_database\<lparr>bookings := [example_booking], bookings_id_seq := 2\<rparr>"

text \<open>The row a booking of the second session adds to it.\<close>

definition example_booking_2 :: "string booking" where
  "example_booking_2 =
     \<lparr>b_id = 2, b_session_id = 2, b_full_name = ''Luis Gil'', b_phone = ''600654321'',
      b_email = ''luis@example.org'', b_created_at = 0\<rparr>"

text \<open>A configuration with neither secrets nor environment variables.\<close>

definition example_unset_config :: config where
  "example_unset_config = \<lparr>secrets = Map.empty, environ = Map.empty\<rparr>"

text \<open>A configuration with the admin password in the secrets.\<close>

definition example_admin_config :: config where
  "example_admin_config =
     \<lparr>secrets = [''admin'' \<mapsto> [''password'' \<mapsto> ''s3creto'']], environ = Map.empty\<rparr>"

text \<open>The row of the first example session as the listing shows it while it has a place.\<close>

definition example_selected :: listed_session where
  "example_selected =
     \<lparr>r_id = 1, r_activity = ''Yoga'', r_start_time = 600, r_end_time = 660,
      r_capacity = 1, r_booked = 0, r_remaining = 1\<rparr>"

text \<open>
  The entries of Python's tables that the examples use. The whitespace is that of
  \<open>str.isspace\<close>. The uppercase letters are those below 256 (A to Z and the code
  points 192 to 222 but 215), whose lowercase form is 32 further on, and U+03D2 (978),
  an uppercase letter that \<open>str.lower\<close> leaves as it is; for the other code points
  from 256 on, the cases are not those of Python, and the examples use none of them.
\<close>

definition upper_below_256 :: "codepoint \<Rightarrow> bool" where
  "upper_below_256 c = ((65 \<le> c \<and> c \<le> 90) \<or> (192 \<le> c \<and> c \<le> 214) \<or> (216 \<le> c \<and> c \<le> 222))"

definition example_unicode :: unicode where
  "example_unicode =
     \<lparr>isspace = (\<lambda>c. (9 \<le> c \<and> c \<le> 13) \<or> (28 \<le> c \<and> c \<le> 32) \<or> c = 133 \<or> c = 160 \<or>
                     c = 5760 \<or> (8192 \<le> c \<and> c \<le> 8202) \<or> c = 8232 \<or> c = 8233 \<or>
                     c = 8239 \<or> c = 8287 \<or> c = 12288),
      isupper = (\<lambda>c. upper_below_256 c \<or> c = 978),
      lower = map (\<lambda>c. if upper_below_256 c then c + 32 else c)\<rparr>"

text \<open>The example database with its text columns as strings of code points.\<close>

definition form_database :: "str database" where
  "form_database =
     \<lparr>sessions = sessions example_database, bookings = [], bookings_id_seq = 1, now = 0\<rparr>"

text \<open>
  An email as typed: a space, U+2003, U+03D2, "SER@Example.ORG", U+3000 and a space.
\<close>

definition example_email :: str where
  "example_email = [32, 8195, 978] @ ascii ''SER@Example.ORG'' @ [12288, 32]"

text \<open>
  Four attempts on the example database after its first booking: two for the second
  session, one for the first, which is full, and one for a session that does not exist.
\<close>

definition example_attempts_2 :: "string attempt list" where
  "example_attempts_2 =
     [(2, ''Luis Gil'', ''600654321'', ''luis@example.org''),
      (2, ''Eva Sanz'', ''600111222'', ''eva@example.org''),
      (1, ''Paz Mora'', ''600333444'', ''paz@example.org''),
      (9999, ''Noa Vega'', ''600555666'', ''noa@example.org'')]"

section \<open>Properties\<close>

subsection \<open>The paths of \<open>create_booking_atomic\<close>\<close>

lemma create_booking_atomic_not_found:
  assumes "get_db_url cfg \<noteq> []" and "find_session db session_id = None"
  shows "create_booking_atomic cfg db session_id full_name phone email =
           Returned ((False, Sesion_no_encontrada),
             \<lparr>committed = db, pending = [],
              calls = [Execute (Select_session_for_update session_id), Exit_with]\<rparr>)"
  using assms
  by (simp add: create_booking_atomic_def connect_def select_session_for_update_def
      find_session_def execute_def exit_with_def flush_def)

lemma connect_configured:
  "get_db_url cfg \<noteq> [] \<Longrightarrow> connect cfg db = Returned \<lparr>committed = db, pending = [], calls = []\<rparr>"
  by (simp add: connect_def)

lemma connect_unconfigured:
  "get_db_url cfg = [] \<Longrightarrow> connect cfg db = Stopped Falta_configurar_conexion"
  by (simp add: connect_def)

lemma create_booking_atomic_stopped:
  "get_db_url cfg = [] \<Longrightarrow>
     create_booking_atomic cfg db session_id full_name phone email = Stopped Falta_configurar_conexion"
  by (simp add: create_booking_atomic_def connect_unconfigured)

lemma create_booking_atomic_full:
  assumes "get_db_url cfg \<noteq> []" and "find_session db session_id = Some s"
    and "s_capacity s - booked_count db session_id \<le> 0"
  shows "create_booking_atomic cfg db session_id full_name phone email =
           Returned ((False, Sesion_se_acaba_de_llenar),
             \<lparr>committed = db, pending = [],
              calls = [Execute (Select_session_for_update session_id),
                       Execute (Count_bookings session_id), Rollback, Exit_with]\<rparr>)"
  using assms
  by (simp add: create_booking_atomic_def connect_configured select_session_for_update_def
      count_bookings_def visible_bookings_def find_session_def booked_count_def
      execute_def rollback_def exit_with_def flush_def)

lemma create_booking_atomic_success:
  assumes "get_db_url cfg \<noteq> []" and "find_session db session_id = Some s"
    and "0 < s_capacity s - booked_count db session_id"
  shows "create_booking_atomic cfg db session_id full_name phone email =
           Returned ((True, Reserva_confirmada),
             \<lparr>committed = db\<lparr>bookings := bookings db @
                  [\<lparr>b_id = bookings_id_seq db, b_session_id = session_id, b_full_name = full_name,
                    b_phone = phone, b_email = email, b_created_at = now db\<rparr>],
                  bookings_id_seq := bookings_id_seq db + 1\<rparr>,
              pending = [],
              calls = [Execute (Select_session_for_update session_id),
                       Execute (Count_bookings session_id),
                       Execute (Insert_booking session_id full_name phone email),
                       Commit, Exit_with]\<rparr>)"
  using assms
  by (simp add: create_booking_atomic_def connect_configured select_session_for_update_def
      count_bookings_def visible_bookings_def find_session_def booked_count_def
      insert_booking_def commit_def execute_def exit_with_def flush_def Let_def)

lemma create_booking_atomic_cases:
  obtains
    (stopped) "get_db_url cfg = []"
      "create_booking_atomic cfg db session_id full_name phone email = Stopped Falta_configurar_conexion"
  | (not_found) "get_db_url cfg \<noteq> []" "find_session db session_id = None"
      "create_booking_atomic cfg db session_id full_name phone email =
         Returned ((False, Sesion_no_encontrada),
           \<lparr>committed = db, pending = [],
            calls = [Execute (Select_session_for_update session_id), Exit_with]\<rparr>)"
  | (full) s where "get_db_url cfg \<noteq> []" "find_session db session_id = Some s"
      "s_capacity s - booked_count db session_id \<le> 0"
      "create_booking_atomic cfg db session_id full_name phone email =
         Returned ((False, Sesion_se_acaba_de_llenar),
           \<lparr>committed = db, pending = [],
            calls = [Execute (Select_session_for_update session_id),
                     Execute (Count_bookings session_id), Rollback, Exit_with]\<rparr>)"
  | (success) s where "get_db_url cfg \<noteq> []" "find_session db session_id = Some s"
      "0 < s_capacity s - booked_count db session_id"
      "create_booking_atomic cfg db session_id full_name phone email =
         Returned ((True, Reserva_confirmada),
           \<lparr>committed = db\<lparr>bookings := bookings db @
                  [\<lparr>b_id = bookings_id_seq db, b_session_id = session_id, b_full_name = full_name,
                    b_phone = phone, b_email = email, b_created_at = now db\<rparr>],
                  bookings_id_seq := bookings_id_seq db + 1\<rparr>,
            pending = [],
            calls = [Execute (Select_session_for_update session_id),
                     Execute (Count_bookings session_id),
                     Execute (Insert_booking session_id full_name phone email),
                     Commit, Exit_with]\<rparr>)"
proof (cases "get_db_url cfg = []")
  case True
  from True create_booking_atomic_stopped [OF True] show ?thesis by (rule stopped)
next
  case url: False
  show ?thesis
  proof (cases "find_session db session_id")
    case None
    from url None create_booking_atomic_not_found [OF url None] show ?thesis by (rule not_found)
  next
    case (Some s)
    show ?thesis
    proof (cases "s_capacity s - booked_count db session_id \<le> 0")
      case True
      from url Some True create_booking_atomic_full [OF url Some True] show ?thesis by (rule full)
    next
      case False
      then have "0 < s_capacity s - booked_count db session_id" by simp
      then have pos: "0 < s_capacity s - booked_count db session_id" .
      from url Some pos create_booking_atomic_success [OF url Some pos] show ?thesis by (rule success)
    qed
  qed
qed

lemma find_session_in_set:
  "find_session db session_id = Some s \<Longrightarrow> s \<in> set (sessions db) \<and> s_id s = session_id"
  by (auto simp: find_session_def find_Some_iff in_set_conv_nth)

lemma find_session_unique:
  assumes "session_ids_unique db" and "find_session db session_id = Some s"
    and "t \<in> set (sessions db)" and "s_id t = session_id"
  shows "t = s"
proof -
  from assms(2) have "s \<in> set (sessions db)" "s_id s = session_id"
    using find_session_in_set by auto
  with assms(1,3,4) show ?thesis
    unfolding session_ids_unique_def by (metis distinct_map inj_onD)
qed

lemma booked_count_append:
  "booked_count (db\<lparr>bookings := bookings db @ [row], bookings_id_seq := k\<rparr>) sid =
     booked_count db sid + (if b_session_id row = sid then 1 else 0)"
  by (simp add: booked_count_def)

lemma create_booking_atomic_keeps_capacity:
  assumes "session_ids_unique db" and "within_capacity db"
  shows "within_capacity (database_after db (create_booking_atomic cfg db session_id full_name phone email))"
proof (cases rule: create_booking_atomic_cases [of cfg db session_id full_name phone email])
  case stopped
  then show ?thesis using assms(2) by (simp add: database_after_def)
next
  case not_found
  then show ?thesis using assms(2) by (simp add: database_after_def)
next
  case (full s)
  then show ?thesis using assms(2) by (simp add: database_after_def)
next
  case (success s)
  let ?row = "\<lparr>b_id = bookings_id_seq db, b_session_id = session_id, b_full_name = full_name,
                b_phone = phone, b_email = email, b_created_at = now db\<rparr>"
  let ?db' = "db\<lparr>bookings := bookings db @ [?row], bookings_id_seq := bookings_id_seq db + 1\<rparr>"
  have after: "database_after db (create_booking_atomic cfg db session_id full_name phone email) = ?db'"
    using success(4) by (simp add: database_after_def)
  have "booked_count ?db' (s_id t) \<le> s_capacity t" if t: "t \<in> set (sessions db)" for t
  proof (cases "s_id t = session_id")
    case True
    then have "t = s" using find_session_unique [OF assms(1) success(2) t] by simp
    then show ?thesis using success(3) True by (simp add: booked_count_append)
  next
    case False
    then show ?thesis using assms(2) t by (simp add: booked_count_append within_capacity_def)
  qed
  then show ?thesis unfolding after by (simp add: within_capacity_def)
qed

lemma create_booking_atomic_keeps_sessions:
  "sessions (database_after db (create_booking_atomic cfg db session_id full_name phone email)) = sessions db"
  by (cases rule: create_booking_atomic_cases [of cfg db session_id full_name phone email])
    (simp_all add: database_after_def)

lemma booking_attempts_keep_capacity:
  "session_ids_unique db \<Longrightarrow> within_capacity db \<Longrightarrow> within_capacity (booking_attempts cfg db attempts)"
proof (induction attempts arbitrary: db)
  case Nil
  then show ?case by simp
next
  case (Cons a attempts)
  obtain sid fn ph em where a: "a = (sid, fn, ph, em)" by (cases a) auto
  let ?db' = "database_after db (create_booking_atomic cfg db sid fn ph em)"
  have "session_ids_unique ?db'"
    using Cons.prems(1) by (simp add: session_ids_unique_def create_booking_atomic_keeps_sessions)
  moreover have "within_capacity ?db'"
    using Cons.prems by (rule create_booking_atomic_keeps_capacity)
  ultimately show ?case using Cons.IH a by simp
qed

lemma insert_only_below_capacity:
  assumes "bookings (database_after db (create_booking_atomic cfg db session_id full_name phone email)) \<noteq> bookings db"
  shows "\<exists>s. find_session db session_id = Some s \<and> booked_count db session_id < s_capacity s"
  using assms
  by (cases rule: create_booking_atomic_cases [of cfg db session_id full_name phone email])
    (auto simp: database_after_def)

subsection \<open>The worked example, evaluated\<close>

lemma example_config_url: "get_db_url example_config \<noteq> []"
  by (simp add: example_config_def get_db_url_def secret_get_def environ_get_def)

lemma example_find_1:
  "find_session example_database 1 =
     Some \<lparr>s_id = 1, s_activity = ''Yoga'', s_event_date = (2025, 6, 14),
          s_start_time = 600, s_end_time = 660, s_capacity = 1\<rparr>"
  by (simp add: example_database_def find_session_def)

lemma example_find_2:
  "find_session example_database 2 =
     Some \<lparr>s_id = 2, s_activity = ''Taller'', s_event_date = (2025, 6, 14),
          s_start_time = 660, s_end_time = 720, s_capacity = 2\<rparr>"
  by (simp add: example_database_def find_session_def)

lemma example_find_9999: "find_session example_database 9999 = None"
  by (simp add: example_database_def find_session_def)

lemma example_unique: "session_ids_unique example_database"
  by (simp add: session_ids_unique_def example_database_def)

lemma example_within: "within_capacity example_database"
  by (simp add: within_capacity_def example_database_def booked_count_def)

lemma example_first_attempt:
  "create_booking_atomic example_config example_database 1 ''Ana Ruiz'' ''600123456'' ''ana@example.org'' =
     Returned ((True, Reserva_confirmada),
       \<lparr>committed = example_database_full, pending = [],
        calls = [Execute (Select_session_for_update 1), Execute (Count_bookings 1),
                 Execute (Insert_booking 1 ''Ana Ruiz'' ''600123456'' ''ana@example.org''),
                 Commit, Exit_with]\<rparr>)"
proof -
  have "0 < s_capacity \<lparr>s_id = 1, s_activity = ''Yoga'', s_event_date = (2025, 6, 14),
          s_start_time = 600, s_end_time = 660, s_capacity = 1\<rparr> - booked_count example_database 1"
    by (simp add: booked_count_def example_database_def)
  from create_booking_atomic_success [OF example_config_url example_find_1 this]
  show ?thesis
    by (simp add: example_database_full_def example_booking_def example_database_def)
qed

lemma example_full_find_1:
  "find_session example_database_full 1 =
     Some \<lparr>s_id = 1, s_activity = ''Yoga'', s_event_date = (2025, 6, 14),
          s_start_time = 600, s_end_time = 660, s_capacity = 1\<rparr>"
  by (simp add: example_database_full_def example_database_def find_session_def)

lemma example_full_count_1: "booked_count example_database_full 1 = 1"
  by (simp add: example_database_full_def example_booking_def booked_count_def)

lemma example_second_attempt:
  "create_booking_atomic example_config example_database_full 1 full_name phone email =
     Returned ((False, Sesion_se_acaba_de_llenar),
       \<lparr>committed = example_database_full, pending = [],
        calls = [Execute (Select_session_for_update 1), Execute (Count_bookings 1),
                 Rollback, Exit_with]\<rparr>)"
  by (rule create_booking_atomic_full [OF example_config_url example_full_find_1])
    (simp add: example_full_count_1)

lemma example_full_find_9999: "find_session example_database_full 9999 = None"
  by (simp add: example_database_full_def example_database_def find_session_def)

lemma example_third_attempt:
  "create_booking_atomic example_config example_database_full 9999 full_name phone email =
     Returned ((False, Sesion_no_encontrada),
       \<lparr>committed = example_database_full, pending = [],
        calls = [Execute (Select_session_for_update 9999), Exit_with]\<rparr>)"
  by (rule create_booking_atomic_not_found [OF example_config_url example_full_find_9999])

lemma example_run: "booking_attempts example_config example_database example_attempts = example_database_full"
  by (simp add: example_attempts_def example_first_attempt example_second_attempt
      example_third_attempt database_after_def)

text \<open>
  C1. No session ever has more bookings than its capacity: a call of
  \<open>create_booking_atomic\<close> adds a booking only if the session exists and the count of
  its bookings is below its capacity, so a database within capacity (its session
  identifiers unique) is within capacity after any sequence of booking attempts.
\<close>

theorem capacity_never_exceeded:
  assumes "session_ids_unique db" and "within_capacity db"
  shows "within_capacity (booking_attempts cfg db attempts) \<and>
         (bookings (database_after db (create_booking_atomic cfg db session_id full_name phone email))
            \<noteq> bookings db \<longrightarrow>
          (\<exists>s. find_session db session_id = Some s \<and> booked_count db session_id < s_capacity s))"
  using booking_attempts_keep_capacity [OF assms, of cfg attempts]
    insert_only_below_capacity [of db cfg session_id full_name phone email]
  by simp

theorem capacity_never_exceeded_witness:
  "session_ids_unique example_database \<and> within_capacity example_database \<and>
   within_capacity (booking_attempts example_config example_database example_attempts) \<and>
   bookings (booking_attempts example_config example_database example_attempts) = [example_booking] \<and>
   bookings (database_after example_database
      (create_booking_atomic example_config example_database 1
         ''Ana Ruiz'' ''600123456'' ''ana@example.org'')) \<noteq> bookings example_database \<and>
   booked_count example_database 1 < 1"
proof -
  have run: "bookings (booking_attempts example_config example_database example_attempts) = [example_booking]"
    by (simp add: example_run example_database_full_def)
  have ins: "bookings (database_after example_database
      (create_booking_atomic example_config example_database 1
         ''Ana Ruiz'' ''600123456'' ''ana@example.org'')) \<noteq> bookings example_database"
    unfolding example_first_attempt database_after_def
    by (simp add: example_database_full_def example_database_def)
  have cnt: "booked_count example_database 1 < 1"
    by (simp add: booked_count_def example_database_def)
  from capacity_never_exceeded [OF example_unique example_within,
      of example_config example_attempts 1 "''Ana Ruiz''" "''600123456''" "''ana@example.org''"]
  show ?thesis using example_unique example_within run ins cnt by simp
qed

subsection \<open>The results and effects of a booking call\<close>

text \<open>
  C2. When the session exists and its capacity less the count of its bookings is zero or
  negative, \<open>create_booking_atomic\<close> returns the flag \<open>False\<close> with the message
  that the session has just filled up; the calls on the connection are the two reads,
  then \<open>conn.rollback()\<close>, then the end of the \<open>with\<close> block, with no insert
  among them; and the database is the one the call started from.
\<close>

theorem full_session_is_refused:
  assumes "get_db_url cfg \<noteq> []" and "find_session db session_id = Some s"
    and "s_capacity s - booked_count db session_id \<le> 0"
  shows "returned (create_booking_atomic cfg db session_id full_name phone email) =
           Some (False, Sesion_se_acaba_de_llenar) \<and>
         calls_made (create_booking_atomic cfg db session_id full_name phone email) =
           [Execute (Select_session_for_update session_id), Execute (Count_bookings session_id),
            Rollback, Exit_with] \<and>
         database_after db (create_booking_atomic cfg db session_id full_name phone email) = db"
  by (simp add: create_booking_atomic_full [OF assms] returned_def calls_made_def database_after_def)

theorem full_session_is_refused_witness:
  "get_db_url example_config \<noteq> [] \<and>
   find_session example_database_full 1 =
     Some \<lparr>s_id = 1, s_activity = ''Yoga'', s_event_date = (2025, 6, 14),
          s_start_time = 600, s_end_time = 660, s_capacity = 1\<rparr> \<and>
   (1::int) - booked_count example_database_full 1 \<le> 0 \<and>
   returned (create_booking_atomic example_config example_database_full 1
       ''Luis Gil'' ''600654321'' ''luis@example.org'') = Some (False, Sesion_se_acaba_de_llenar) \<and>
   calls_made (create_booking_atomic example_config example_database_full 1
       ''Luis Gil'' ''600654321'' ''luis@example.org'') =
     [Execute (Select_session_for_update 1), Execute (Count_bookings 1), Rollback, Exit_with] \<and>
   database_after example_database_full (create_booking_atomic example_config example_database_full 1
       ''Luis Gil'' ''600654321'' ''luis@example.org'') = example_database_full"
proof -
  have le: "s_capacity \<lparr>s_id = 1, s_activity = ''Yoga'', s_event_date = (2025, 6, 14),
          s_start_time = 600, s_end_time = 660, s_capacity = 1\<rparr>
          - booked_count example_database_full 1 \<le> 0"
    by (simp add: example_full_count_1)
  from full_session_is_refused [OF example_config_url example_full_find_1 le,
      of "''Luis Gil''" "''600654321''" "''luis@example.org''"]
  show ?thesis using example_config_url example_full_find_1 le by simp
qed

text \<open>
  C3. For an identifier that no session has, \<open>create_booking_atomic\<close> writes nothing
  and returns the flag \<open>False\<close> with the message that the session was not found, but it
  does not abort its transaction: it returns from inside the \<open>with\<close> block, whose end
  commits the transaction, and no call of \<open>conn.rollback()\<close> comes before.
\<close>

theorem not_found_path_commits:
  "create_booking_atomic example_config example_database 9999
      ''Eva Sanz'' ''600111222'' ''eva@example.org'' =
     Returned ((False, Sesion_no_encontrada),
       exit_with (execute \<lparr>committed = example_database, pending = [], calls = []\<rparr>
                    (Select_session_for_update 9999))) \<and>
   committed (exit_with (execute \<lparr>committed = example_database, pending = [], calls = []\<rparr>
                    (Select_session_for_update 9999))) =
     committed (commit (execute \<lparr>committed = example_database, pending = [], calls = []\<rparr>
                    (Select_session_for_update 9999))) \<and>
   calls (exit_with (execute \<lparr>committed = example_database, pending = [], calls = []\<rparr>
                    (Select_session_for_update 9999))) =
     [Execute (Select_session_for_update 9999), Exit_with] \<and>
   Rollback \<notin> set (calls (exit_with (execute \<lparr>committed = example_database, pending = [], calls = []\<rparr>
                    (Select_session_for_update 9999)))) \<and>
   database_after example_database (create_booking_atomic example_config example_database 9999
      ''Eva Sanz'' ''600111222'' ''eva@example.org'') = example_database"
  unfolding create_booking_atomic_not_found [OF example_config_url example_find_9999]
  by (simp add: exit_with_def commit_def execute_def flush_def database_after_def)

text \<open>
  C4. A call of \<open>create_booking_atomic\<close> that returns leaves no uncommitted row
  behind, keeps the sessions and the bookings of every other session as they were, and
  has added exactly the one row of its arguments when its flag is \<open>True\<close>, and no row
  when its flag is \<open>False\<close> (the session not found, or full).
\<close>

theorem booking_is_all_or_nothing:
  assumes "create_booking_atomic cfg db session_id full_name phone email = Returned ((ok, msg), conn)"
  shows "pending conn = [] \<and>
         sessions (committed conn) = sessions db \<and>
         filter (\<lambda>b. b_session_id b \<noteq> session_id) (bookings (committed conn)) =
           filter (\<lambda>b. b_session_id b \<noteq> session_id) (bookings db) \<and>
         (if ok
          then msg = Reserva_confirmada \<and>
               bookings (committed conn) = bookings db @
                 [\<lparr>b_id = bookings_id_seq db, b_session_id = session_id, b_full_name = full_name,
                   b_phone = phone, b_email = email, b_created_at = now db\<rparr>]
          else (msg = Sesion_no_encontrada \<or> msg = Sesion_se_acaba_de_llenar) \<and>
               bookings (committed conn) = bookings db)"
  using assms
  by (cases rule: create_booking_atomic_cases [of cfg db session_id full_name phone email]) auto

theorem booking_is_all_or_nothing_witness:
  "create_booking_atomic example_config example_database 1
      ''Ana Ruiz'' ''600123456'' ''ana@example.org'' =
     Returned ((True, Reserva_confirmada),
       \<lparr>committed = example_database_full, pending = [],
        calls = [Execute (Select_session_for_update 1), Execute (Count_bookings 1),
                 Execute (Insert_booking 1 ''Ana Ruiz'' ''600123456'' ''ana@example.org''),
                 Commit, Exit_with]\<rparr>) \<and>
   sessions example_database_full = sessions example_database \<and>
   filter (\<lambda>b. b_session_id b \<noteq> 1) (bookings example_database_full) =
     filter (\<lambda>b. b_session_id b \<noteq> 1) (bookings example_database) \<and>
   bookings example_database_full = bookings example_database @
     [\<lparr>b_id = bookings_id_seq example_database, b_session_id = 1, b_full_name = ''Ana Ruiz'',
       b_phone = ''600123456'', b_email = ''ana@example.org'',
       b_created_at = now example_database\<rparr>]"
  using booking_is_all_or_nothing [OF example_first_attempt] example_first_attempt
  by simp

lemma example_full_find_2:
  "find_session example_database_full 2 =
     Some \<lparr>s_id = 2, s_activity = ''Taller'', s_event_date = (2025, 6, 14),
          s_start_time = 660, s_end_time = 720, s_capacity = 2\<rparr>"
  by (simp add: example_database_full_def example_database_def find_session_def)

lemma example_full_count_2: "booked_count example_database_full 2 = 0"
  by (simp add: example_database_full_def example_booking_def booked_count_def)

lemma example_other_session_attempt:
  "create_booking_atomic example_config example_database_full 2
      ''Luis Gil'' ''600654321'' ''luis@example.org'' =
     Returned ((True, Reserva_confirmada),
       \<lparr>committed = example_database_full\<lparr>bookings := [example_booking, example_booking_2],
                      bookings_id_seq := 3\<rparr>,
        pending = [],
        calls = [Execute (Select_session_for_update 2), Execute (Count_bookings 2),
                 Execute (Insert_booking 2 ''Luis Gil'' ''600654321'' ''luis@example.org''),
                 Commit, Exit_with]\<rparr>)"
proof -
  have "0 < s_capacity \<lparr>s_id = 2, s_activity = ''Taller'', s_event_date = (2025, 6, 14),
          s_start_time = 660, s_end_time = 720, s_capacity = 2\<rparr> - booked_count example_database_full 2"
    by (simp add: example_full_count_2)
  from create_booking_atomic_success [OF example_config_url example_full_find_2 this]
  show ?thesis
    by (simp add: example_database_full_def example_booking_2_def example_database_def)
qed

text \<open>
  C5, as stated, fails: two successful bookings, whose rows get the identifiers 1 and 2,
  return the same pair of \<open>True\<close> and the confirmation message, so the value returned
  does not hold the identifier of the new row.
\<close>

theorem confirmation_without_identifier_counterexample:
  "returned (create_booking_atomic example_config example_database 1
      ''Ana Ruiz'' ''600123456'' ''ana@example.org'') = Some (True, Reserva_confirmada) \<and>
   returned (create_booking_atomic example_config example_database_full 2
      ''Luis Gil'' ''600654321'' ''luis@example.org'') = Some (True, Reserva_confirmada) \<and>
   map b_id (bookings (database_after example_database
      (create_booking_atomic example_config example_database 1
         ''Ana Ruiz'' ''600123456'' ''ana@example.org''))) = [1] \<and>
   map b_id (bookings (database_after example_database_full
      (create_booking_atomic example_config example_database_full 2
         ''Luis Gil'' ''600654321'' ''luis@example.org''))) = [1, 2]"
  unfolding example_first_attempt example_other_session_attempt
  by (simp add: returned_def database_after_def example_database_full_def example_booking_def
      example_booking_2_def)

lemma create_booking_atomic_new_row:
  "\<exists>new. bookings (database_after db (create_booking_atomic cfg db session_id full_name phone email)) =
            bookings db @ new \<and>
          bookings_id_seq (database_after db (create_booking_atomic cfg db session_id full_name phone email)) =
            bookings_id_seq db + int (length new) \<and>
          length new \<le> 1 \<and> (\<forall>b \<in> set new. b_id b = bookings_id_seq db)"
proof (cases rule: create_booking_atomic_cases [of cfg db session_id full_name phone email])
  case (success s)
  then show ?thesis
    by (intro exI [of _ "[\<lparr>b_id = bookings_id_seq db, b_session_id = session_id,
          b_full_name = full_name, b_phone = phone, b_email = email, b_created_at = now db\<rparr>]"])
      (simp add: database_after_def)
qed (simp_all add: database_after_def)

lemma booking_attempts_new_rows:
  "\<exists>new. bookings (booking_attempts cfg db attempts) = bookings db @ new \<and>
          bookings_id_seq db \<le> bookings_id_seq (booking_attempts cfg db attempts) \<and>
          (\<forall>b \<in> set new. bookings_id_seq db \<le> b_id b \<and>
                           b_id b < bookings_id_seq (booking_attempts cfg db attempts)) \<and>
          distinct (map b_id new)"
proof (induction attempts arbitrary: db)
  case Nil
  show ?case by simp
next
  case (Cons a attempts)
  obtain sid fn ph em where a: "a = (sid, fn, ph, em)" by (cases a) auto
  define db1 where "db1 = database_after db (create_booking_atomic cfg db sid fn ph em)"
  obtain new1 where n1: "bookings db1 = bookings db @ new1"
      "bookings_id_seq db1 = bookings_id_seq db + int (length new1)"
      "length new1 \<le> 1" "\<forall>b \<in> set new1. b_id b = bookings_id_seq db"
    using create_booking_atomic_new_row [of db cfg sid fn ph em] unfolding db1_def by blast
  obtain new2 where n2: "bookings (booking_attempts cfg db1 attempts) = bookings db1 @ new2"
      "bookings_id_seq db1 \<le> bookings_id_seq (booking_attempts cfg db1 attempts)"
      "\<forall>b \<in> set new2. bookings_id_seq db1 \<le> b_id b \<and>
                        b_id b < bookings_id_seq (booking_attempts cfg db1 attempts)"
      "distinct (map b_id new2)"
    using Cons.IH [of db1] by blast
  have run: "booking_attempts cfg db (a # attempts) = booking_attempts cfg db1 attempts"
    by (simp add: a db1_def)
  have d1: "distinct (map b_id new1)"
    using n1(3) by (cases new1) auto
  have lt: "b_id b < bookings_id_seq db1" if "b \<in> set new1" for b
  proof -
    from that have "new1 \<noteq> []" by auto
    then have "0 < length new1" by simp
    with n1(2,4) that show ?thesis by auto
  qed
  have disj: "b_id ` set new1 \<inter> b_id ` set new2 = {}"
    using lt n2(3) by fastforce
  have "bookings (booking_attempts cfg db1 attempts) = bookings db @ (new1 @ new2)"
    by (simp add: n1(1) n2(1))
  moreover have "bookings_id_seq db \<le> bookings_id_seq (booking_attempts cfg db1 attempts)"
    using n1(2) n2(2) by simp
  moreover have "\<forall>b \<in> set (new1 @ new2). bookings_id_seq db \<le> b_id b \<and>
                   b_id b < bookings_id_seq (booking_attempts cfg db1 attempts)"
    using n1(2,4) n2(2,3) lt by fastforce
  moreover have "distinct (map b_id (new1 @ new2))"
    using d1 n2(4) disj by simp
  ultimately show ?case unfolding run by blast
qed

text \<open>
  C5, amended. A successful call returns the flag \<open>True\<close> with the fixed confirmation
  message, which does not hold the identifier of the new row; and the rows that any
  sequence of booking attempts adds to the bookings have identifiers distinct from one
  another.
\<close>

theorem successful_bookings_get_distinct_identifiers:
  "(returned (create_booking_atomic cfg db session_id full_name phone email) = Some (True, msg) \<longrightarrow>
      msg = Reserva_confirmada) \<and>
   bookings (booking_attempts cfg db attempts) =
     bookings db @ new_bookings db (booking_attempts cfg db attempts) \<and>
   distinct (map b_id (new_bookings db (booking_attempts cfg db attempts)))"
proof -
  have "msg = Reserva_confirmada"
    if "returned (create_booking_atomic cfg db session_id full_name phone email) = Some (True, msg)"
    using that
    by (cases rule: create_booking_atomic_cases [of cfg db session_id full_name phone email])
      (auto simp: returned_def)
  moreover obtain new where "bookings (booking_attempts cfg db attempts) = bookings db @ new"
      "distinct (map b_id new)"
    using booking_attempts_new_rows [of cfg db attempts] by blast
  ultimately show ?thesis by (simp add: new_bookings_def)
qed

lemma example_run_2:
  "map b_id (bookings (booking_attempts example_config example_database_full example_attempts_2)) =
     [1, 2, 3]"
  by (simp add: example_attempts_2_def create_booking_atomic_def connect_def
      example_config_url select_session_for_update_def count_bookings_def insert_booking_def
      visible_bookings_def execute_def rollback_def commit_def exit_with_def flush_def
      database_after_def example_database_full_def example_database_def example_booking_def
      Let_def)

theorem successful_bookings_get_distinct_identifiers_witness:
  "returned (create_booking_atomic example_config example_database_full 2
      ''Luis Gil'' ''600654321'' ''luis@example.org'') = Some (True, Reserva_confirmada) \<and>
   map b_id (bookings example_database_full) = [1] \<and>
   map b_id (new_bookings example_database_full
      (booking_attempts example_config example_database_full example_attempts_2)) = [2, 3] \<and>
   distinct (map b_id (new_bookings example_database_full
      (booking_attempts example_config example_database_full example_attempts_2)))"
proof -
  have old: "map b_id (bookings example_database_full) = [1]"
    by (simp add: example_database_full_def example_booking_def)
  then have len: "length (bookings example_database_full) = 1"
    by (metis length_map length_Cons list.size(3) One_nat_def)
  have new: "map b_id (new_bookings example_database_full
      (booking_attempts example_config example_database_full example_attempts_2)) = [2, 3]"
    unfolding new_bookings_def len drop_map [symmetric] example_run_2 by simp
  have ret: "returned (create_booking_atomic example_config example_database_full 2
      ''Luis Gil'' ''600654321'' ''luis@example.org'') = Some (True, Reserva_confirmada)"
    by (simp add: example_other_session_attempt returned_def)
  from successful_bookings_get_distinct_identifiers [of example_config example_database_full 2
      "''Luis Gil''" "''600654321''" "''luis@example.org''" Reserva_confirmada example_attempts_2]
  show ?thesis using old new ret by simp
qed

text \<open>
  C6. On the path of a session that is not found, \<open>create_booking_atomic\<close> returns
  its error without a call of \<open>conn.rollback()\<close>: the calls on the connection are the
  read of the session and the end of the \<open>with\<close> block. The path of a full session
  does call \<open>conn.rollback()\<close> before it returns.
\<close>

theorem not_found_path_has_no_rollback:
  "returned (create_booking_atomic example_config example_database 9999
      ''Eva Sanz'' ''600111222'' ''eva@example.org'') = Some (False, Sesion_no_encontrada) \<and>
   calls_made (create_booking_atomic example_config example_database 9999
      ''Eva Sanz'' ''600111222'' ''eva@example.org'') =
     [Execute (Select_session_for_update 9999), Exit_with] \<and>
   Rollback \<notin> set (calls_made (create_booking_atomic example_config example_database 9999
      ''Eva Sanz'' ''600111222'' ''eva@example.org'')) \<and>
   Rollback \<in> set (calls_made (create_booking_atomic example_config example_database_full 1
      ''Luis Gil'' ''600654321'' ''luis@example.org''))"
  unfolding create_booking_atomic_not_found [OF example_config_url example_find_9999]
    example_second_attempt
  by (simp add: returned_def calls_made_def)

subsection \<open>The remaining places\<close>

lemma fetch_sessions_configured:
  assumes "get_db_url cfg \<noteq> []"
  shows "fetch_sessions cfg db event_date =
           Returned
             (map (\<lambda>s. \<lparr>r_id = s_id s, r_activity = s_activity s, r_start_time = s_start_time s,
                         r_end_time = s_end_time s, r_capacity = s_capacity s,
                         r_booked = booked_count db (s_id s),
                         r_remaining = s_capacity s - booked_count db (s_id s)\<rparr>)
                (sessions_on db event_date),
              \<lparr>committed = db, pending = [],
               calls = [Execute (Select_sessions_with_booked event_date), Exit_with]\<rparr>)"
  using assms
  by (simp add: fetch_sessions_def connect_configured select_sessions_with_booked_def
      visible_bookings_def execute_def exit_with_def flush_def add_remaining_def
      booked_count_def sessions_on_def comp_def)

lemma fetch_sessions_unconfigured:
  "get_db_url cfg = [] \<Longrightarrow> fetch_sessions cfg db event_date = Stopped Falta_configurar_conexion"
  by (simp add: fetch_sessions_def connect_unconfigured)

text \<open>
  C7. The rows \<open>fetch_sessions\<close> returns are the sessions of the date, one row each
  and in their order, and the \<open>remaining\<close> of a row is the capacity of its session
  less the count of the bookings of that session; and \<open>create_booking_atomic\<close> decides
  on the same difference: for an existing session it refuses when the capacity less the
  count of its bookings is zero or negative, and books otherwise.
\<close>

theorem remaining_is_capacity_minus_booked:
  assumes "get_db_url cfg \<noteq> []"
  shows "(\<exists>rows conn. fetch_sessions cfg db event_date = Returned (rows, conn) \<and>
            list_all2 (\<lambda>r s. r_id r = s_id s \<and> r_capacity r = s_capacity s \<and>
                             r_booked r = booked_count db (s_id s) \<and>
                             r_remaining r = s_capacity s - booked_count db (s_id s))
              rows (sessions_on db event_date)) \<and>
         (find_session db session_id = Some s \<longrightarrow>
            returned (create_booking_atomic cfg db session_id full_name phone email) =
              Some (if s_capacity s - booked_count db session_id \<le> 0
                    then (False, Sesion_se_acaba_de_llenar) else (True, Reserva_confirmada)))"
proof -
  have "list_all2 (\<lambda>r s. r_id r = s_id s \<and> r_capacity r = s_capacity s \<and>
                             r_booked r = booked_count db (s_id s) \<and>
                             r_remaining r = s_capacity s - booked_count db (s_id s))
          (map (\<lambda>s. \<lparr>r_id = s_id s, r_activity = s_activity s, r_start_time = s_start_time s,
                         r_end_time = s_end_time s, r_capacity = s_capacity s,
                         r_booked = booked_count db (s_id s),
                         r_remaining = s_capacity s - booked_count db (s_id s)\<rparr>)
                (sessions_on db event_date))
          (sessions_on db event_date)"
    by (simp add: list_all2_map1 list_all2_same)
  then have listing: "\<exists>rows conn. fetch_sessions cfg db event_date = Returned (rows, conn) \<and>
            list_all2 (\<lambda>r s. r_id r = s_id s \<and> r_capacity r = s_capacity s \<and>
                             r_booked r = booked_count db (s_id s) \<and>
                             r_remaining r = s_capacity s - booked_count db (s_id s))
              rows (sessions_on db event_date)"
    using fetch_sessions_configured [OF assms] by blast
  have "returned (create_booking_atomic cfg db session_id full_name phone email) =
              Some (if s_capacity s - booked_count db session_id \<le> 0
                    then (False, Sesion_se_acaba_de_llenar) else (True, Reserva_confirmada))"
    if found: "find_session db session_id = Some s"
  proof (cases "s_capacity s - booked_count db session_id \<le> 0")
    case True
    then show ?thesis
      by (simp add: create_booking_atomic_full [OF assms found] returned_def)
  next
    case False
    then have "0 < s_capacity s - booked_count db session_id" by simp
    from create_booking_atomic_success [OF assms found this] False
    show ?thesis by (simp add: returned_def)
  qed
  with listing show ?thesis by blast
qed

lemma example_full_sessions_on:
  "sessions_on example_database_full (2025, 6, 14) =
     [\<lparr>s_id = 2, s_activity = ''Taller'', s_event_date = (2025, 6, 14),
       s_start_time = 660, s_end_time = 720, s_capacity = 2\<rparr>,
      \<lparr>s_id = 1, s_activity = ''Yoga'', s_event_date = (2025, 6, 14),
       s_start_time = 600, s_end_time = 660, s_capacity = 1\<rparr>]"
  by (simp add: sessions_on_def example_database_full_def example_database_def)

lemma example_full_listing:
  "returned (fetch_sessions example_config example_database_full (2025, 6, 14)) =
     Some [\<lparr>r_id = 2, r_activity = ''Taller'', r_start_time = 660, r_end_time = 720,
            r_capacity = 2, r_booked = 0, r_remaining = 2\<rparr>,
           \<lparr>r_id = 1, r_activity = ''Yoga'', r_start_time = 600, r_end_time = 660,
            r_capacity = 1, r_booked = 1, r_remaining = 0\<rparr>]"
  by (simp add: fetch_sessions_configured [OF example_config_url] returned_def
      example_full_sessions_on example_full_count_1 example_full_count_2)

theorem remaining_is_capacity_minus_booked_witness:
  "get_db_url example_config \<noteq> [] \<and>
   returned (fetch_sessions example_config example_database_full (2025, 6, 14)) =
     Some [\<lparr>r_id = 2, r_activity = ''Taller'', r_start_time = 660, r_end_time = 720,
            r_capacity = 2, r_booked = 0, r_remaining = 2\<rparr>,
           \<lparr>r_id = 1, r_activity = ''Yoga'', r_start_time = 600, r_end_time = 660,
            r_capacity = 1, r_booked = 1, r_remaining = 0\<rparr>] \<and>
   map s_capacity (sessions_on example_database_full (2025, 6, 14)) = [2, 1] \<and>
   booked_count example_database_full 2 = 0 \<and> booked_count example_database_full 1 = 1 \<and>
   find_session example_database_full 1 =
     Some \<lparr>s_id = 1, s_activity = ''Yoga'', s_event_date = (2025, 6, 14),
          s_start_time = 600, s_end_time = 660, s_capacity = 1\<rparr> \<and>
   returned (create_booking_atomic example_config example_database_full 1
      ''Luis Gil'' ''600654321'' ''luis@example.org'') = Some (False, Sesion_se_acaba_de_llenar)"
  using remaining_is_capacity_minus_booked [OF example_config_url,
      of example_database_full "(2025, 6, 14)" 1
        "\<lparr>s_id = 1, s_activity = ''Yoga'', s_event_date = (2025, 6, 14),
          s_start_time = 600, s_end_time = 660, s_capacity = 1\<rparr>"
        "''Luis Gil''" "''600654321''" "''luis@example.org''"]
    example_config_url example_full_listing example_full_sessions_on
    example_full_count_1 example_full_count_2 example_full_find_1
  by simp

lemma fetch_sessions_same_tables:
  assumes "sessions db' = sessions db" and "bookings db' = bookings db"
  shows "returned (fetch_sessions cfg db' event_date) = returned (fetch_sessions cfg db event_date)"
proof (cases "get_db_url cfg = []")
  case True
  then show ?thesis by (simp add: fetch_sessions_unconfigured)
next
  case False
  have "sessions_on db' event_date = sessions_on db event_date"
    using assms(1) by (simp add: sessions_on_def)
  moreover have "booked_count db' sid = booked_count db sid" for sid
    using assms(2) by (simp add: booked_count_def)
  ultimately show ?thesis
    by (simp add: fetch_sessions_configured [OF False] returned_def)
qed

lemma fetch_sessions_keeps_database:
  "database_after db (fetch_sessions cfg db event_date) = db"
proof (cases "get_db_url cfg = []")
  case True
  then show ?thesis by (simp add: fetch_sessions_unconfigured database_after_def)
next
  case False
  then show ?thesis by (simp add: fetch_sessions_configured database_after_def)
qed

text \<open>
  C8. \<open>fetch_sessions\<close> leaves the database as it was, so a second call right after
  the first returns the same rows, with the same \<open>remaining\<close>; more generally, two
  databases with the same sessions and the same bookings give the same rows.
\<close>

theorem remaining_read_is_repeatable:
  "database_after db (fetch_sessions cfg db event_date) = db \<and>
   returned (fetch_sessions cfg (database_after db (fetch_sessions cfg db event_date)) event_date) =
     returned (fetch_sessions cfg db event_date) \<and>
   (sessions db' = sessions db \<and> bookings db' = bookings db \<longrightarrow>
      returned (fetch_sessions cfg db' event_date) = returned (fetch_sessions cfg db event_date))"
  using fetch_sessions_same_tables [of db' db cfg event_date]
  by (simp add: fetch_sessions_keeps_database)

theorem remaining_read_is_repeatable_witness:
  "sessions (example_database_full\<lparr>bookings_id_seq := 7, now := 99\<rparr>) = sessions example_database_full \<and>
   bookings (example_database_full\<lparr>bookings_id_seq := 7, now := 99\<rparr>) = bookings example_database_full \<and>
   returned (fetch_sessions example_config (example_database_full\<lparr>bookings_id_seq := 7, now := 99\<rparr>)
      (2025, 6, 14)) =
     returned (fetch_sessions example_config example_database_full (2025, 6, 14)) \<and>
   returned (fetch_sessions example_config
      (database_after example_database_full
         (fetch_sessions example_config example_database_full (2025, 6, 14))) (2025, 6, 14)) =
     Some [\<lparr>r_id = 2, r_activity = ''Taller'', r_start_time = 660, r_end_time = 720,
            r_capacity = 2, r_booked = 0, r_remaining = 2\<rparr>,
           \<lparr>r_id = 1, r_activity = ''Yoga'', r_start_time = 600, r_end_time = 660,
            r_capacity = 1, r_booked = 1, r_remaining = 0\<rparr>]"
  using remaining_read_is_repeatable [of example_database_full example_config "(2025, 6, 14)"
      "example_database_full\<lparr>bookings_id_seq := 7, now := 99\<rparr>"]
    example_full_listing
  by simp

subsection \<open>The admin panel and the booking form\<close>

text \<open>
  C9. The admin panel grants access exactly when the password typed is not empty and
  equals the configured one; it shows the error exactly when the password typed is not
  empty and differs; and for the empty password it shows neither, whatever the
  configured password is, the empty one of an unset secret and variable included.
\<close>

theorem admin_access_needs_matching_password:
  "(admin_expander cfg admin_pw = Access_granted \<longleftrightarrow>
      admin_pw \<noteq> [] \<and> admin_pw = get_admin_password cfg) \<and>
   (admin_expander cfg admin_pw = Error_shown Contrasena_incorrecta \<longleftrightarrow>
      admin_pw \<noteq> [] \<and> admin_pw \<noteq> get_admin_password cfg) \<and>
   admin_expander cfg [] = Nothing_shown"
  by (auto simp: admin_expander_def)

theorem admin_access_needs_matching_password_witness:
  "get_admin_password example_unset_config = [] \<and>
   admin_expander example_unset_config [] = Nothing_shown \<and>
   admin_expander example_unset_config ''x'' = Error_shown Contrasena_incorrecta \<and>
   get_admin_password example_admin_config = ''s3creto'' \<and>
   admin_expander example_admin_config ''s3creto'' = Access_granted \<and>
   admin_expander example_admin_config ''secreto'' = Error_shown Contrasena_incorrecta \<and>
   admin_expander example_admin_config [] = Nothing_shown"
proof -
  have unset: "get_admin_password example_unset_config = []"
    by (simp add: get_admin_password_def secret_get_def environ_get_def example_unset_config_def)
  have admin: "get_admin_password example_admin_config = ''s3creto''"
    by (simp add: get_admin_password_def secret_get_def example_admin_config_def)
  from admin_access_needs_matching_password [of example_unset_config "[]"]
    admin_access_needs_matching_password [of example_unset_config "''x''"]
    admin_access_needs_matching_password [of example_admin_config "''s3creto''"]
    admin_access_needs_matching_password [of example_admin_config "''secreto''"]
    admin_access_needs_matching_password [of example_admin_config "[]"]
  show ?thesis by (simp add: unset admin)
qed

lemma trimmed_strip: "trimmed u (strip u s)"
proof (cases "strip u s = []")
  case True
  then show ?thesis by (simp add: trimmed_def)
next
  case False
  define t where "t = dropWhile (isspace u) s"
  define v where "v = dropWhile (isspace u) (rev t)"
  have strip: "strip u s = rev v" by (simp add: strip_def t_def v_def)
  with False have v: "v \<noteq> []" by simp
  then have "\<not> isspace u (hd v)" unfolding v_def by (rule hd_dropWhile)
  then have last: "\<not> isspace u (last (strip u s))" using v by (simp add: strip last_rev)
  have "rev t = takeWhile (isspace u) (rev t) @ v" by (simp add: v_def)
  then have "t = rev v @ rev (takeWhile (isspace u) (rev t))"
    by (metis rev_append rev_rev_ident)
  then have hd_eq: "hd t = hd (rev v)" using v by (metis hd_append2 rev_is_Nil_conv)
  have "t \<noteq> []" using v by (auto simp: v_def)
  then have "\<not> isspace u (hd t)" unfolding t_def by (rule hd_dropWhile)
  then have "\<not> isspace u (hd (strip u s))" using hd_eq by (simp add: strip)
  with last show ?thesis by (simp add: trimmed_def)
qed

lemma submit_booking_returned:
  assumes "submit_booking u cfg db selected_session full_name phone email consent = Returned x"
  shows "create_booking_atomic cfg db (r_id selected_session)
           (strip u full_name) (strip u phone) (lower u (strip u email)) = Returned x"
  using assms by (auto simp: submit_booking_def split: if_splits)

lemma example_unicode_keeps_ends: "lower_keeps_ends example_unicode"
proof -
  have keep: "\<not> isspace example_unicode (if upper_below_256 c then c + 32 else c)"
    if "\<not> isspace example_unicode c" for c
    using that by (auto simp: example_unicode_def upper_below_256_def)
  have "trimmed example_unicode (lower example_unicode s)" if "trimmed example_unicode s" for s
  proof (cases "s = []")
    case True
    then show ?thesis by (simp add: trimmed_def example_unicode_def)
  next
    case False
    have low: "lower example_unicode s = map (\<lambda>c. if upper_below_256 c then c + 32 else c) s"
      by (simp add: example_unicode_def)
    from that False have "\<not> isspace example_unicode (hd s)" "\<not> isspace example_unicode (last s)"
      by (simp_all add: trimmed_def)
    then show ?thesis
      unfolding low using False keep by (simp add: trimmed_def hd_map last_map)
  qed
  then show ?thesis by (simp add: lower_keeps_ends_def)
qed

lemma form_first_attempt:
  "create_booking_atomic example_config form_database 1 full_name phone email =
     Returned ((True, Reserva_confirmada),
       \<lparr>committed = form_database\<lparr>bookings :=
            [\<lparr>b_id = 1, b_session_id = 1, b_full_name = full_name, b_phone = phone,
              b_email = email, b_created_at = 0\<rparr>], bookings_id_seq := 2\<rparr>,
        pending = [],
        calls = [Execute (Select_session_for_update 1), Execute (Count_bookings 1),
                 Execute (Insert_booking 1 full_name phone email), Commit, Exit_with]\<rparr>)"
proof -
  have found: "find_session form_database 1 =
     Some \<lparr>s_id = 1, s_activity = ''Yoga'', s_event_date = (2025, 6, 14),
          s_start_time = 600, s_end_time = 660, s_capacity = 1\<rparr>"
    by (simp add: form_database_def example_database_def find_session_def)
  have "0 < s_capacity \<lparr>s_id = 1, s_activity = ''Yoga'', s_event_date = (2025, 6, 14),
          s_start_time = 600, s_end_time = 660, s_capacity = 1\<rparr> - booked_count form_database 1"
    by (simp add: booked_count_def form_database_def)
  from create_booking_atomic_success [OF example_config_url found this]
  show ?thesis by (simp add: form_database_def)
qed

lemma example_strip_name: "strip example_unicode (ascii ''  Ana Ruiz '') = ascii ''Ana Ruiz''"
  by (simp add: strip_def example_unicode_def ascii_def)

lemma example_strip_phone: "strip example_unicode (ascii '' 600123456'') = ascii ''600123456''"
  by (simp add: strip_def example_unicode_def ascii_def)

lemma example_strip_email:
  "strip example_unicode example_email = 978 # ascii ''SER@Example.ORG''"
  by (simp add: strip_def example_unicode_def ascii_def example_email_def)

lemma example_lower_email:
  "lower example_unicode (978 # ascii ''SER@Example.ORG'') = 978 # ascii ''ser@example.org''"
  by (simp add: example_unicode_def ascii_def upper_below_256_def)

lemma example_phone_match: "phone_regex_match (ascii ''600123456'')"
  by (simp add: phone_regex_match_def phone_body_def phone_class_def ascii_def)

lemma example_email_has_at_and_dot:
  "of_char (CHR ''@'') \<in> set example_email \<and> of_char (CHR ''.'') \<in> set example_email"
  by (simp add: example_email_def ascii_def)

lemma example_submit:
  "submit_booking example_unicode example_config form_database example_selected
      (ascii ''  Ana Ruiz '') (ascii '' 600123456'') example_email True =
     Returned ((True, Reserva_confirmada),
       \<lparr>committed = form_database\<lparr>bookings :=
            [\<lparr>b_id = 1, b_session_id = 1, b_full_name = ascii ''Ana Ruiz'',
              b_phone = ascii ''600123456'', b_email = 978 # ascii ''ser@example.org'',
              b_created_at = 0\<rparr>], bookings_id_seq := 2\<rparr>,
        pending = [],
        calls = [Execute (Select_session_for_update 1), Execute (Count_bookings 1),
                 Execute (Insert_booking 1 (ascii ''Ana Ruiz'') (ascii ''600123456'')
                            (978 # ascii ''ser@example.org'')), Commit, Exit_with]\<rparr>)"
proof -
  have name: "ascii ''Ana Ruiz'' \<noteq> []" by (simp add: ascii_def)
  have "submit_booking example_unicode example_config form_database example_selected
      (ascii ''  Ana Ruiz '') (ascii '' 600123456'') example_email True =
    create_booking_atomic example_config form_database 1
      (ascii ''Ana Ruiz'') (ascii ''600123456'') (978 # ascii ''ser@example.org'')"
    unfolding submit_booking_def example_strip_name example_strip_phone example_strip_email
      example_lower_email
    using example_phone_match example_email_has_at_and_dot name
    by (simp add: example_selected_def)
  then show ?thesis by (simp only: form_first_attempt)
qed

text \<open>
  C10, as stated, fails: the handler lets through an email that begins with U+03D2, an
  uppercase letter that \<open>str.lower\<close> leaves as it is, and the booking stored holds the
  email with this letter still in it.
\<close>

theorem uppercase_email_is_stored_counterexample:
  "map b_email (bookings (database_after form_database
      (submit_booking example_unicode example_config form_database example_selected
         (ascii ''  Ana Ruiz '') (ascii '' 600123456'') example_email True))) =
     [978 # ascii ''ser@example.org''] \<and>
   isupper example_unicode 978"
  unfolding example_submit
  by (simp add: database_after_def example_unicode_def)

text \<open>
  C10, amended. When the submit handler gets as far as a call of
  \<open>create_booking_atomic\<close> that returns, the call was made with the stripped name, the
  stripped phone and the lowercase form of the stripped email, and every booking in the
  database afterwards was there before or holds exactly these three values; the name and
  the phone have no whitespace at either end, and nor has the email when lowercasing
  puts none there. Nothing is said of uppercase letters: the lowercase form of a string
  may have them.
\<close>

theorem stored_fields_are_stripped_and_lowered:
  assumes "submit_booking u cfg db selected_session full_name phone email consent =
             Returned ((ok, msg), conn)"
  shows "create_booking_atomic cfg db (r_id selected_session)
           (strip u full_name) (strip u phone) (lower u (strip u email)) = Returned ((ok, msg), conn) \<and>
         (\<forall>b \<in> set (bookings (committed conn)).
            b \<in> set (bookings db) \<or>
            (b_full_name b = strip u full_name \<and> b_phone b = strip u phone \<and>
             b_email b = lower u (strip u email) \<and>
             trimmed u (b_full_name b) \<and> trimmed u (b_phone b) \<and>
             (lower_keeps_ends u \<longrightarrow> trimmed u (b_email b))))"
proof -
  have call: "create_booking_atomic cfg db (r_id selected_session)
           (strip u full_name) (strip u phone) (lower u (strip u email)) = Returned ((ok, msg), conn)"
    using assms by (rule submit_booking_returned)
  have norm: "trimmed u (strip u full_name) \<and> trimmed u (strip u phone) \<and>
              (lower_keeps_ends u \<longrightarrow> trimmed u (lower u (strip u email)))"
    by (simp add: trimmed_strip lower_keeps_ends_def)
  have "b \<in> set (bookings db) \<or>
            (b_full_name b = strip u full_name \<and> b_phone b = strip u phone \<and>
             b_email b = lower u (strip u email) \<and>
             trimmed u (b_full_name b) \<and> trimmed u (b_phone b) \<and>
             (lower_keeps_ends u \<longrightarrow> trimmed u (b_email b)))"
    if "b \<in> set (bookings (committed conn))" for b
    using call that norm
    by (cases rule: create_booking_atomic_cases [of cfg db "r_id selected_session"
          "strip u full_name" "strip u phone" "lower u (strip u email)"]) auto
  with call show ?thesis by blast
qed

theorem stored_fields_are_stripped_and_lowered_witness:
  "submit_booking example_unicode example_config form_database example_selected
      (ascii ''  Ana Ruiz '') (ascii '' 600123456'') example_email True =
     Returned ((True, Reserva_confirmada),
       \<lparr>committed = form_database\<lparr>bookings :=
            [\<lparr>b_id = 1, b_session_id = 1, b_full_name = ascii ''Ana Ruiz'',
              b_phone = ascii ''600123456'', b_email = 978 # ascii ''ser@example.org'',
              b_created_at = 0\<rparr>], bookings_id_seq := 2\<rparr>,
        pending = [],
        calls = [Execute (Select_session_for_update 1), Execute (Count_bookings 1),
                 Execute (Insert_booking 1 (ascii ''Ana Ruiz'') (ascii ''600123456'')
                            (978 # ascii ''ser@example.org'')), Commit, Exit_with]\<rparr>) \<and>
   bookings form_database = [] \<and>
   lower_keeps_ends example_unicode \<and>
   strip example_unicode (ascii ''  Ana Ruiz '') = ascii ''Ana Ruiz'' \<and>
   strip example_unicode (ascii '' 600123456'') = ascii ''600123456'' \<and>
   lower example_unicode (strip example_unicode example_email) = 978 # ascii ''ser@example.org'' \<and>
   trimmed example_unicode (ascii ''Ana Ruiz'') \<and>
   trimmed example_unicode (ascii ''600123456'') \<and>
   trimmed example_unicode (978 # ascii ''ser@example.org'')"
proof -
  have none: "bookings form_database = []" by (simp add: form_database_def)
  from stored_fields_are_stripped_and_lowered [OF example_submit]
  have "trimmed example_unicode (ascii ''Ana Ruiz'') \<and>
        trimmed example_unicode (ascii ''600123456'') \<and>
        trimmed example_unicode (978 # ascii ''ser@example.org'')"
    unfolding example_strip_name example_strip_phone example_strip_email example_lower_email
    using example_unicode_keeps_ends by (simp add: none)
  then show ?thesis
    using example_submit none example_unicode_keeps_ends example_strip_name example_strip_phone
      example_strip_email example_lower_email
    by simp
qed

end
